theory Spec2Isabelle
  imports Complex_Main
begin

section \<open>Strings\<close>

text \<open>
  JavaScript strings are modelled as \<open>string\<close> (a list of 8-bit characters, read as
  the code points up to U+00FF). The three string methods the components use are written
  out: \<open>trim\<close>, \<open>toLowerCase\<close> and \<open>includes\<close>. White space is the set of
  characters \<open>trim\<close> strips that exist in this character type; lower-casing maps the
  capital letters of this range (A to Z, and U+00C0 to U+00DE without the multiplication
  sign) to their small letters.
\<close>

definition isWhiteSpace :: "char \<Rightarrow> bool" where
  "isWhiteSpace c =
     (c = CHR '' '' \<or> c = CHR 0x09 \<or> c = CHR 0x0A \<or> c = CHR 0x0B \<or> c = CHR 0x0C
      \<or> c = CHR 0x0D \<or> c = CHR 0xA0)"

definition trim :: "string \<Rightarrow> string" where
  "trim s = rev (dropWhile isWhiteSpace (rev (dropWhile isWhiteSpace s)))"

definition toLowerChar :: "char \<Rightarrow> char" where
  "toLowerChar c =
     (if 65 \<le> (of_char c :: nat) \<and> (of_char c :: nat) \<le> 90
         \<or> 192 \<le> (of_char c :: nat) \<and> (of_char c :: nat) \<le> 222
            \<and> (of_char c :: nat) \<noteq> 215
      then char_of ((of_char c :: nat) + 32) else c)"

definition toLowerCase :: "string \<Rightarrow> string" where
  "toLowerCase s = map toLowerChar s"

fun startsWith :: "string \<Rightarrow> string \<Rightarrow> bool" where
  "startsWith s [] = True"
| "startsWith [] (p # ps) = False"
| "startsWith (c # cs) (p # ps) = (c = p \<and> startsWith cs ps)"

fun includes_str :: "string \<Rightarrow> string \<Rightarrow> bool" where
  "includes_str [] p = (p = [])"
| "includes_str (c # cs) p = (startsWith (c # cs) p \<or> includes_str cs p)"

section \<open>Double-precision numbers\<close>

text \<open>
  JavaScript numbers are IEEE-754 binary64 values. A finite double is an integer of
  magnitude at most \<open>2^53\<close> times a power of two with exponent at least \<open>-1074\<close>.
  \<open>fl64\<close> rounds a real number to the nearest double, ties to the even significand,
  as every arithmetic operation of the source does with its exact result. The exponent
  of the last place is found from the binary logarithm of the magnitude, computed on
  integers. Overflow to infinity (magnitudes from \<open>2^1024\<close> on) is not modelled.
\<close>

fun log2floor :: "int \<Rightarrow> int" where
  "log2floor n = (if n < 2 then 0 else 1 + log2floor (n div 2))"

declare log2floor.simps [simp del]

definition ilog2 :: "real \<Rightarrow> int" where
  "ilog2 x =
     (if 1 \<le> \<bar>x\<bar> then log2floor \<lfloor>\<bar>x\<bar>\<rfloor>
      else - (1 + log2floor (\<lceil>1 / \<bar>x\<bar>\<rceil> - 1)))"

definition roundEven :: "real \<Rightarrow> int" where
  "roundEven y =
     (let n = \<lfloor>y\<rfloor> in
      if y - of_int n < 1 / 2 then n
      else if 1 / 2 < y - of_int n then n + 1
      else if even n then n else n + 1)"

definition ulpExponent :: "real \<Rightarrow> int" where
  "ulpExponent x = max (ilog2 x - 52) (- 1074)"

definition fl64 :: "real \<Rightarrow> real" where
  "fl64 x =
     (if x = 0 then 0
      else of_int (roundEven (x / 2 powi ulpExponent x)) * 2 powi ulpExponent x)"


section \<open>Data model (types)\<close>

text \<open>
  An \<open>AudioBuffer\<close> of the Web Audio API holds a number of sample frames at a sample
  rate; its \<open>duration\<close> attribute is their quotient, in seconds, as a double.
\<close>

record AudioBuffer =
  length_buf :: nat
  sampleRate :: nat

definition duration :: "AudioBuffer \<Rightarrow> real" where
  "duration b = fl64 (real (length_buf b) / real (sampleRate b))"

text \<open>
  The plan returned by \<open>generateMeditationPlan\<close> has the four text fields that a
  \<open>MeditationSession\<close> shares with it; the session adds the identifier and the two
  optional media fields.
\<close>

record Plan =
  title :: string
  description :: string
  script :: string
  imagePrompt :: string

record MeditationSession = Plan +
  id_session :: string
  imageUrl :: "string option"
  audioBuffer :: "AudioBuffer option"

datatype AppMode = HOME | CREATE | CHAT | PLAYER

section \<open>Application shell (App.tsx)\<close>

record App =
  currentMode :: AppMode
  activeSession :: "MeditationSession option"

definition initialApp :: App where
  "initialApp = \<lparr>currentMode = CREATE, activeSession = None\<rparr>"

definition handleSessionCreated :: "MeditationSession \<Rightarrow> App \<Rightarrow> App" where
  "handleSessionCreated session a = a\<lparr>activeSession := Some session, currentMode := PLAYER\<rparr>"

definition closePlayer :: "App \<Rightarrow> App" where
  "closePlayer a = a\<lparr>currentMode := CREATE\<rparr>"

section \<open>Media player (MediaPlayer.tsx)\<close>

text \<open>
  The component's state variables and refs form one record. Readings of the audio clock
  (\<open>audioContext.currentTime\<close>) are inputs of the operations that read it; every
  subtraction, division and multiplication of the source is rounded with \<open>fl64\<close>.
  The audio context is present or absent and, when present, suspended or
  running; the gain node is its gain value; the buffer source node records the offset it
  was started at and whether it has been stopped; the ambient audio element records
  whether it is playing. \<open>frameScheduled\<close> says that a callback requested with
  \<open>requestAnimationFrame\<close> is pending: the handle in \<open>animationFrameRef\<close> names
  that callback, and \<open>cancelAnimationFrame\<close> on the handle removes it.
\<close>

datatype AudioContextState = suspended | running

record AudioBufferSourceNode =
  buffer :: AudioBuffer
  startOffset :: real
  stopped :: bool

record Player =
  isPlaying :: bool
  isMuted :: bool
  isAmbientOn :: bool
  progress :: real
  isListening :: bool
  audioContextRef :: "AudioContextState option"
  sourceRef :: "AudioBufferSourceNode option"
  gainNodeRef :: "real option"
  ambientAudioRef :: "bool option"
  startTimeRef :: real
  pauseTimeRef :: real
  frameScheduled :: bool
  isPlayingRef :: bool
  isMutedRef :: bool
  isAmbientOnRef :: bool

definition initialPlayer :: Player where
  "initialPlayer =
     \<lparr>isPlaying = False, isMuted = False, isAmbientOn = False, progress = 0,
      isListening = False, audioContextRef = None, sourceRef = None, gainNodeRef = None,
      ambientAudioRef = None, startTimeRef = 0, pauseTimeRef = 0, frameScheduled = False,
      isPlayingRef = False, isMutedRef = False, isAmbientOnRef = False\<rparr>"

text \<open>\<open>session.audioBuffer?.duration || 1\<close>: an absent buffer or a zero duration gives 1.\<close>

definition durationOr1 :: "MeditationSession \<Rightarrow> real" where
  "durationOr1 session =
     (case audioBuffer session of
        None \<Rightarrow> 1
      | Some b \<Rightarrow> if duration b = 0 then 1 else duration b)"

definition percent :: "MeditationSession \<Rightarrow> real \<Rightarrow> real" where
  "percent session current = fl64 (fl64 (current / durationOr1 session) * 100)"

definition updateProgress :: "MeditationSession \<Rightarrow> real \<Rightarrow> Player \<Rightarrow> Player" where
  "updateProgress session now s =
     (if audioContextRef s = None then s
      else
        let current = fl64 (now - startTimeRef s) in
        if percent session current \<ge> 100
        then s\<lparr>isPlaying := False, progress := 100, pauseTimeRef := 0\<rparr>
        else s\<lparr>progress := percent session current, frameScheduled := True\<rparr>)"

definition playAudio :: "MeditationSession \<Rightarrow> real \<Rightarrow> Player \<Rightarrow> Player" where
  "playAudio session now s =
     (if audioContextRef s = None \<or> audioBuffer session = None \<or> gainNodeRef s = None then s
      else
        let offset = pauseTimeRef s;
            s1 = s\<lparr>audioContextRef := Some running,
                   sourceRef := Some \<lparr>buffer = the (audioBuffer session),
                                      startOffset = offset, stopped = False\<rparr>,
                   startTimeRef := fl64 (now - offset),
                   isPlaying := True\<rparr>
        in updateProgress session now s1)"

definition pauseAudio :: "real \<Rightarrow> Player \<Rightarrow> Player" where
  "pauseAudio now s =
     (case sourceRef s of
        None \<Rightarrow> s
      | Some src \<Rightarrow>
          if audioContextRef s = None then s
          else s\<lparr>sourceRef := Some (src\<lparr>stopped := True\<rparr>),
                 pauseTimeRef := fl64 (now - startTimeRef s),
                 isPlaying := False,
                 frameScheduled := False\<rparr>)"

definition togglePlay :: "MeditationSession \<Rightarrow> real \<Rightarrow> Player \<Rightarrow> Player" where
  "togglePlay session now s = (if isPlaying s then pauseAudio now s else playAudio session now s)"

definition toggleMute :: "Player \<Rightarrow> Player" where
  "toggleMute s =
     (if gainNodeRef s = None then s
      else
        let nextState = \<not> isMutedRef s in
        s\<lparr>gainNodeRef := Some (if nextState then 0 else 1), isMuted := nextState\<rparr>)"

definition toggleAmbient :: "Player \<Rightarrow> Player" where
  "toggleAmbient s = s\<lparr>isAmbientOn := \<not> isAmbientOn s\<rparr>"

definition toggleVoiceControl :: "Player \<Rightarrow> Player" where
  "toggleVoiceControl s = s\<lparr>isListening := \<not> isListening s\<rparr>"

text \<open>
  The animation-frame callback: the pending request is consumed and \<open>updateProgress\<close>
  runs at the clock reading of that frame.
\<close>

definition frame :: "MeditationSession \<Rightarrow> real \<Rightarrow> Player \<Rightarrow> Player" where
  "frame session now s =
     (if frameScheduled s then updateProgress session now (s\<lparr>frameScheduled := False\<rparr>) else s)"

text \<open>\<open>recognition.onresult\<close>, on the transcript of the last result.\<close>

definition onresult :: "MeditationSession \<Rightarrow> string \<Rightarrow> real \<Rightarrow> Player \<Rightarrow> Player" where
  "onresult session transcript now s =
     (let command = trim (toLowerCase transcript) in
      if includes_str command ''pause'' \<or> includes_str command ''stop'' \<or> includes_str command ''wait''
      then (if isPlayingRef s then pauseAudio now s else s)
      else if includes_str command ''play'' \<or> includes_str command ''start''
              \<or> includes_str command ''resume'' \<or> includes_str command ''begin''
      then (if \<not> isPlayingRef s then playAudio session now s else s)
      else if includes_str command ''mute'' \<or> includes_str command ''quiet''
              \<or> includes_str command ''silence''
      then (if \<not> isMutedRef s then toggleMute s else s)
      else if includes_str command ''unmute'' \<or> includes_str command ''sound''
              \<or> includes_str command ''volume''
      then (if isMutedRef s then toggleMute s else s)
      else if includes_str command ''nature on'' \<or> includes_str command ''ambient on''
              \<or> includes_str command ''background on''
      then (if \<not> isAmbientOnRef s then s\<lparr>isAmbientOn := True\<rparr> else s)
      else if includes_str command ''nature off'' \<or> includes_str command ''ambient off''
              \<or> includes_str command ''background off''
      then (if isAmbientOnRef s then s\<lparr>isAmbientOn := False\<rparr> else s)
      else s)"

text \<open>
  \<open>recognition.onerror\<close>. The handler belongs to one run of the speech-recognition
  effect; \<open>isEffectActive\<close> is that run's flag, cleared by the effect's cleanup.
\<close>

definition onerror :: "string \<Rightarrow> bool \<Rightarrow> Player \<Rightarrow> Player" where
  "onerror err isEffectActive s =
     (if err = ''no-speech'' \<or> err = ''aborted'' then s
      else if err = ''not-allowed'' \<or> err = ''service-not-allowed''
      then (if isEffectActive then s\<lparr>isListening := False\<rparr> else s)
      else s)"

subsection \<open>Rendering, effects and events\<close>

text \<open>
  After a handler has run the component renders again and its effects run: the three
  shadow refs take the values of their state variables, and the effect with dependencies
  \<open>[isPlaying, isAmbientOn]\<close> runs when one of the two differs from the previous
  render. That effect asks the ambient element to play when both hold and pauses it
  otherwise; a play request can be rejected (the rejection is caught and logged), which is
  the input \<open>playOk\<close>.
\<close>

definition syncAmbient :: "bool \<Rightarrow> Player \<Rightarrow> Player" where
  "syncAmbient playOk s =
     (case ambientAudioRef s of
        None \<Rightarrow> s
      | Some playing \<Rightarrow>
          if isPlaying s \<and> isAmbientOn s
          then s\<lparr>ambientAudioRef := Some (playing \<or> playOk)\<rparr>
          else s\<lparr>ambientAudioRef := Some False\<rparr>)"

definition runEffects :: "Player \<Rightarrow> bool \<Rightarrow> Player \<Rightarrow> Player" where
  "runEffects prev playOk s =
     (let s1 = s\<lparr>isPlayingRef := isPlaying s, isMutedRef := isMuted s,
                  isAmbientOnRef := isAmbientOn s\<rparr>
      in if isPlaying s1 = isPlaying prev \<and> isAmbientOn s1 = isAmbientOn prev then s1
         else syncAmbient playOk s1)"

text \<open>
  Mounting: the ambient element is created and the ambient effect runs (both flags are
  still false), the audio context and the gain node (gain 1) are created, \<open>playAudio\<close>
  is called, and the state it set is rendered.
\<close>

definition mount :: "MeditationSession \<Rightarrow> AudioContextState \<Rightarrow> real \<Rightarrow> bool \<Rightarrow> Player" where
  "mount session ctxState now playOk =
     (let s1 = syncAmbient playOk (initialPlayer\<lparr>ambientAudioRef := Some False\<rparr>);
          s2 = s1\<lparr>audioContextRef := Some ctxState, gainNodeRef := Some 1\<rparr>;
          s3 = playAudio session now s2
      in runEffects initialPlayer playOk s3)"

datatype event =
    TogglePlay real
  | ToggleMute
  | ToggleAmbient
  | ToggleVoiceControl
  | Result string real
  | Error string bool
  | Frame real

fun handle :: "MeditationSession \<Rightarrow> event \<Rightarrow> Player \<Rightarrow> Player" where
  "handle session (TogglePlay now) s = togglePlay session now s"
| "handle session ToggleMute s = toggleMute s"
| "handle session ToggleAmbient s = toggleAmbient s"
| "handle session ToggleVoiceControl s = toggleVoiceControl s"
| "handle session (Result transcript now) s = onresult session transcript now s"
| "handle session (Error err isEffectActive) s = onerror err isEffectActive s"
| "handle session (Frame now) s = frame session now s"

definition step :: "MeditationSession \<Rightarrow> event \<times> bool \<Rightarrow> Player \<Rightarrow> Player" where
  "step session e s = runEffects s (snd e) (handle session (fst e) s)"

fun run :: "MeditationSession \<Rightarrow> (event \<times> bool) list \<Rightarrow> Player \<Rightarrow> Player" where
  "run session [] s = s"
| "run session (e # es) s = run session es (step session e s)"


text \<open>
  A ten-second session, a sixteen-second session and a session without audio, for
  concrete evaluation.
\<close>

definition tenSeconds :: MeditationSession where
  "tenSeconds =
     \<lparr>title = ''Calm'', description = ''A calm place'', script = ''Breathe in'',
      imagePrompt = ''a lake'', id_session = ''1'', imageUrl = Some ''lake.jpg'',
      audioBuffer = Some \<lparr>length_buf = 240000, sampleRate = 24000\<rparr>\<rparr>"


definition noAudio :: MeditationSession where
  "noAudio =
     \<lparr>title = ''Calm'', description = ''A calm place'', script = ''Breathe in'',
      imagePrompt = ''a lake'', id_session = ''2'', imageUrl = Some ''lake.jpg'',
      audioBuffer = None\<rparr>"

section \<open>Session generator (Generator.tsx)\<close>

text \<open>
  The three generation services are inputs: each maps its request text to a result or a
  failure. \<open>handleGenerate\<close> returns the final status, the session passed to
  \<open>onSessionCreated\<close> (if any) and the service calls it made, in order. Both media
  calls are issued before either is awaited. \<open>toString\<close> is the decimal rendering
  of \<open>Date.now()\<close>.
\<close>

fun toString :: "nat \<Rightarrow> string" where
  "toString n =
     (if n < 10 then [char_of (48 + n)]
      else toString (n div 10) @ [char_of (48 + n mod 10)])"

declare toString.simps [simp del]

datatype ServiceError = ServiceError string

record Services =
  generateMeditationPlan :: "string \<Rightarrow> ServiceError + Plan"
  generateMeditationImage :: "string \<Rightarrow> ServiceError + string"
  generateMeditationAudio :: "string \<Rightarrow> ServiceError + AudioBuffer"

record GeneratorState =
  isGeneratingScript :: bool
  isGeneratingImage :: bool
  isGeneratingAudio :: bool
  error :: "string option"

datatype ServiceCall = PlanCall string | ImageCall string | AudioCall string

record Generation =
  status :: GeneratorState
  created :: "MeditationSession option"
  calls :: "ServiceCall list"

definition initialStatus :: GeneratorState where
  "initialStatus =
     \<lparr>isGeneratingScript = False, isGeneratingImage = False, isGeneratingAudio = False,
      error = None\<rparr>"

definition failedStatus :: GeneratorState where
  "failedStatus =
     \<lparr>isGeneratingScript = False, isGeneratingImage = False, isGeneratingAudio = False,
      error = Some ''Something went wrong creating your session. Please try again.''\<rparr>"

definition fallbackImage :: string where
  "fallbackImage = ''https://picsum.photos/1920/1080''"

definition handleGenerate :: "Services \<Rightarrow> nat \<Rightarrow> string \<Rightarrow> GeneratorState \<Rightarrow> Generation" where
  "handleGenerate services dateNow prompt status0 =
     (if trim prompt = [] then \<lparr>status = status0, created = None, calls = []\<rparr>
      else
        let st1 = \<lparr>isGeneratingScript = True, isGeneratingImage = False,
                   isGeneratingAudio = False, error = None\<rparr>
        in case generateMeditationPlan services prompt of
             Inl e \<Rightarrow> \<lparr>status = failedStatus, created = None, calls = [PlanCall prompt]\<rparr>
           | Inr plan \<Rightarrow>
               let st2 = st1\<lparr>isGeneratingScript := False, isGeneratingImage := True,
                              isGeneratingAudio := True\<rparr>;
                   url = (case generateMeditationImage services (imagePrompt plan) of
                            Inl e \<Rightarrow> fallbackImage
                          | Inr u \<Rightarrow> u);
                   cs = [PlanCall prompt, ImageCall (imagePrompt plan), AudioCall (script plan)]
               in case generateMeditationAudio services (script plan) of
                    Inl e \<Rightarrow> \<lparr>status = failedStatus, created = None, calls = cs\<rparr>
                  | Inr buf \<Rightarrow>
                      \<lparr>status = st2\<lparr>isGeneratingImage := False, isGeneratingAudio := False\<rparr>,
                       created = Some \<lparr>title = title plan, description = description plan,
                                        script = script plan, imagePrompt = imagePrompt plan,
                                        id_session = toString dateNow,
                                        imageUrl = Some url, audioBuffer = Some buf\<rparr>,
                       calls = cs\<rparr>)"


section \<open>Chat panel (ChatBot.tsx)\<close>

datatype Role = user | model

record Message =
  role :: Role
  text_msg :: string
  timestamp :: nat

record ChatBot =
  input :: string
  messages :: "Message list"
  isLoading :: bool

datatype ChatOutcome = Resolved "string option" | Rejected

definition initialChat :: "nat \<Rightarrow> ChatBot" where
  "initialChat t0 =
     \<lparr>input = [],
      messages = [\<lparr>role = model,
                   text_msg = ''Hello! I'm your mindfulness companion. How are you feeling today?'',
                   timestamp = t0\<rparr>],
      isLoading = False\<rparr>"


text \<open>
  One completed run of \<open>handleSend\<close>: the guard, the user message, the awaited call of
  \<open>sendChatMessage\<close> (whose outcome is an input: it resolves with a text that may be
  absent, or it is rejected), the reply and the \<open>finally\<close> block. \<open>sentAt\<close> and
  \<open>repliedAt\<close> are the two readings of the clock.
\<close>

definition handleSend :: "ChatOutcome \<Rightarrow> nat \<Rightarrow> nat \<Rightarrow> ChatBot \<Rightarrow> ChatBot" where
  "handleSend outcome sentAt repliedAt c =
     (if trim (input c) = [] \<or> isLoading c then c
      else
        let userMsg = \<lparr>role = user, text_msg = input c, timestamp = sentAt\<rparr>;
            c1 = c\<lparr>messages := messages c @ [userMsg], input := [], isLoading := True\<rparr>;
            c2 = (case outcome of
                    Resolved responseText \<Rightarrow>
                      (case responseText of
                         None \<Rightarrow> c1
                       | Some txt \<Rightarrow>
                           if txt = [] then c1
                           else c1\<lparr>messages := messages c1 @
                                  [\<lparr>role = model, text_msg = txt, timestamp = repliedAt\<rparr>]\<rparr>)
                  | Rejected \<Rightarrow>
                      c1\<lparr>messages := messages c1 @
                        [\<lparr>role = model,
                          text_msg = ''I'm having trouble connecting right now. Please try again.'',
                          timestamp = repliedAt\<rparr>]\<rparr>)
        in c2\<lparr>isLoading := False\<rparr>)"

text \<open>A send operation: the user types a text, then \<open>handleSend\<close> runs to completion.\<close>

record SendOp =
  typed :: string
  outcome :: ChatOutcome
  sentAt :: nat
  repliedAt :: nat

definition send :: "SendOp \<Rightarrow> ChatBot \<Rightarrow> ChatBot" where
  "send x c = handleSend (outcome x) (sentAt x) (repliedAt x) (c\<lparr>input := typed x\<rparr>)"

fun sends :: "SendOp list \<Rightarrow> ChatBot \<Rightarrow> ChatBot" where
  "sends [] c = c"
| "sends (x # xs) c = sends xs (send x c)"

text \<open>
  The transcript entries one send is expected to contribute: the user message and the
  reply, whose text is the service's text or the connectivity-failure text. A send is
  \<open>answered\<close> when the service call was rejected or resolved with a non-empty text.
\<close>

definition replyText :: "ChatOutcome \<Rightarrow> string" where
  "replyText out =
     (case out of
        Resolved responseText \<Rightarrow> (case responseText of None \<Rightarrow> [] | Some txt \<Rightarrow> txt)
      | Rejected \<Rightarrow> ''I'm having trouble connecting right now. Please try again.'')"

definition answered :: "SendOp \<Rightarrow> bool" where
  "answered x = (outcome x = Rejected \<or> replyText (outcome x) \<noteq> [])"

definition exchange :: "SendOp \<Rightarrow> Message list" where
  "exchange x =
     [\<lparr>role = user, text_msg = typed x, timestamp = sentAt x\<rparr>,
      \<lparr>role = model, text_msg = replyText (outcome x), timestamp = repliedAt x\<rparr>]"

text \<open>Services that answer every request with a fixed outcome, for concrete evaluation.\<close>

definition fixedServices ::
  "ServiceError + Plan \<Rightarrow> ServiceError + string \<Rightarrow> ServiceError + AudioBuffer \<Rightarrow> Services" where
  "fixedServices p i a =
     \<lparr>generateMeditationPlan = (\<lambda>_. p), generateMeditationImage = (\<lambda>_. i),
      generateMeditationAudio = (\<lambda>_. a)\<rparr>"

definition oceanPlan :: Plan where
  "oceanPlan =
     \<lparr>title = ''Ocean Sunset Calm'', description = ''Waves at dusk'', script = ''Breathe'',
      imagePrompt = ''ocean, sunset''\<rparr>"

section \<open>Invariants and concrete values\<close>


text \<open>
  Two invariants of the ambient element: it exists and plays only while the player is
  playing with ambient on; and it plays exactly then.
\<close>

definition ambientSound :: "Player \<Rightarrow> bool" where
  "ambientSound s =
     (ambientAudioRef s \<noteq> None
      \<and> (ambientAudioRef s = Some True \<longrightarrow> isPlaying s \<and> isAmbientOn s))"

definition ambientExact :: "Player \<Rightarrow> bool" where
  "ambientExact s = (ambientAudioRef s = Some (isPlaying s \<and> isAmbientOn s))"

text \<open>
  The outcome of the play request that the ambient effect issued the last time the player
  came to be playing with ambient on (\<open>acc\<close> when it has not yet): the effect issues a
  request in exactly the steps before which the two do not both hold and after which
  they do.
\<close>

fun lastPlayOk :: "MeditationSession \<Rightarrow> bool \<Rightarrow> (event \<times> bool) list \<Rightarrow> Player \<Rightarrow> bool" where
  "lastPlayOk session acc [] s = acc"
| "lastPlayOk session acc (e # es) s =
     lastPlayOk session
       (if \<not> (isPlaying s \<and> isAmbientOn s)
           \<and> isPlaying (step session e s) \<and> isAmbientOn (step session e s)
        then snd e else acc)
       es (step session e s)"


section \<open>Properties\<close>

subsection \<open>Rounding to a double\<close>




















lemma fl64_zero: "fl64 0 = 0"
  by (simp add: fl64_def)











subsection \<open>Concrete states\<close>

lemma command_unmute: "trim (toLowerCase ''unmute'') = ''unmute''"
  by (simp add: trim_def toLowerCase_def toLowerChar_def isWhiteSpace_def)

lemma mount_tenSeconds:
  "mount tenSeconds running 0 True =
     initialPlayer\<lparr>isPlaying := True, isPlayingRef := True, audioContextRef := Some running,
       gainNodeRef := Some 1, ambientAudioRef := Some False, frameScheduled := True,
       sourceRef := Some \<lparr>buffer = \<lparr>length_buf = 240000, sampleRate = 24000\<rparr>,
                          startOffset = 0, stopped = False\<rparr>\<rparr>"
  by (simp add: mount_def tenSeconds_def initialPlayer_def syncAmbient_def playAudio_def
      updateProgress_def runEffects_def percent_def fl64_zero Let_def)

lemma onresult_unmute:
  "onresult session ''unmute'' now s = (if \<not> isMutedRef s then toggleMute s else s)"
  by (simp add: onresult_def command_unmute Let_def)

lemma mount_without_audio:
  assumes "audioBuffer session = None"
  shows "mount session ctxState now playOk =
           initialPlayer\<lparr>ambientAudioRef := Some False, audioContextRef := Some ctxState,
             gainNodeRef := Some 1\<rparr>"
  using assms
  by (simp add: mount_def initialPlayer_def syncAmbient_def playAudio_def runEffects_def Let_def)

subsection \<open>Voice commands\<close>

text \<open>
  C1. The dispatcher tests the mute keywords before the unmute keywords, and the test is
  substring containment: the utterance \<open>unmute\<close> contains \<open>mute\<close>, so it takes the
  mute branch. Said to a mounted, unmuted player it mutes the player (gain 0); said to a
  muted player it leaves the player muted.
\<close>

theorem unmute_keyword_mutes:
  "\<not> isMuted (mount tenSeconds running 0 True)
   \<and> isMuted (step tenSeconds (Result ''unmute'' 1, True) (mount tenSeconds running 0 True))
   \<and> gainNodeRef (step tenSeconds (Result ''unmute'' 1, True) (mount tenSeconds running 0 True))
       = Some 0
   \<and> isMuted (step tenSeconds (ToggleMute, True) (mount tenSeconds running 0 True))
   \<and> isMuted (step tenSeconds (Result ''unmute'' 2, True)
        (step tenSeconds (ToggleMute, True) (mount tenSeconds running 0 True)))"
  by (simp add: mount_tenSeconds step_def onresult_unmute toggleMute_def initialPlayer_def
      runEffects_def Let_def)

subsection \<open>The guard of playAudio\<close>

text \<open>
  C10. When the audio context, the session's audio buffer or the gain node is absent,
  \<open>playAudio\<close> returns the state it was given. In particular the automatic play on
  mount does nothing for a session without audio: the mounted player is not playing, has
  no source node and no pending frame, and its progress and pause offset are zero.
\<close>

theorem playAudio_guard:
  "(audioContextRef s = None \<or> audioBuffer session = None \<or> gainNodeRef s = None
      \<longrightarrow> playAudio session now s = s)
   \<and> (audioBuffer session = None \<longrightarrow>
        \<not> isPlaying (mount session ctxState now0 playOk)
        \<and> sourceRef (mount session ctxState now0 playOk) = None
        \<and> progress (mount session ctxState now0 playOk) = 0
        \<and> pauseTimeRef (mount session ctxState now0 playOk) = 0
        \<and> \<not> frameScheduled (mount session ctxState now0 playOk))"
proof (intro conjI impI)
  assume "audioContextRef s = None \<or> audioBuffer session = None \<or> gainNodeRef s = None"
  then show "playAudio session now s = s"
    by (simp add: playAudio_def)
next
  assume none: "audioBuffer session = None"
  show "\<not> isPlaying (mount session ctxState now0 playOk)"
    and "sourceRef (mount session ctxState now0 playOk) = None"
    and "progress (mount session ctxState now0 playOk) = 0"
    and "pauseTimeRef (mount session ctxState now0 playOk) = 0"
    and "\<not> frameScheduled (mount session ctxState now0 playOk)"
    by (simp_all add: mount_without_audio [OF none] initialPlayer_def)
qed

theorem playAudio_guard_witness:
  "audioBuffer noAudio = None
   \<and> playAudio noAudio 5 (mount noAudio suspended 0 True) = mount noAudio suspended 0 True
   \<and> \<not> isPlaying (mount noAudio suspended 0 True)
   \<and> progress (mount noAudio suspended 0 True) = 0"
proof -
  have h: "audioBuffer noAudio = None" by (simp add: noAudio_def)
  show ?thesis
    using h playAudio_guard [where s = "mount noAudio suspended 0 True" and session = noAudio
        and now = 5 and now0 = 0 and ctxState = suspended and playOk = True]
    by simp
qed

subsection \<open>Recognition errors\<close>

text \<open>
  C8, as the claim states it, fails for a handler whose effect run has been cleaned up:
  with listening on, a \<open>not-allowed\<close> error delivered to such a handler leaves
  listening on.
\<close>

theorem onerror_inactive_counterexample:
  "isListening (step tenSeconds (ToggleVoiceControl, True) (mount tenSeconds running 0 True))
   \<and> isListening (onerror ''not-allowed'' False
        (step tenSeconds (ToggleVoiceControl, True) (mount tenSeconds running 0 True)))"
  by (simp add: mount_tenSeconds step_def toggleVoiceControl_def onerror_def initialPlayer_def
      runEffects_def Let_def)

text \<open>
  C8, amended. Errors \<open>no-speech\<close> and \<open>aborted\<close> leave the player state unchanged; a
  permission error (\<open>not-allowed\<close> or \<open>service-not-allowed\<close>) sets the listening flag
  to false when the handler's effect run is still active and leaves the state unchanged
  when it is not; every other error leaves the state unchanged. No error changes the
  play/pause, mute, ambient or progress state.
\<close>

theorem onerror_effect:
  "onerror ''no-speech'' active s = s
   \<and> onerror ''aborted'' active s = s
   \<and> onerror ''not-allowed'' True s = s\<lparr>isListening := False\<rparr>
   \<and> onerror ''service-not-allowed'' True s = s\<lparr>isListening := False\<rparr>
   \<and> onerror ''not-allowed'' False s = s
   \<and> onerror ''service-not-allowed'' False s = s
   \<and> (err \<noteq> ''not-allowed'' \<and> err \<noteq> ''service-not-allowed'' \<longrightarrow> onerror err active s = s)
   \<and> isPlaying (onerror err active s) = isPlaying s
   \<and> isMuted (onerror err active s) = isMuted s
   \<and> isAmbientOn (onerror err active s) = isAmbientOn s
   \<and> progress (onerror err active s) = progress s"
  by (simp add: onerror_def)

theorem onerror_effect_witness:
  "''network'' \<noteq> ''not-allowed'' \<and> ''network'' \<noteq> ''service-not-allowed''
   \<and> onerror ''network'' True (mount tenSeconds running 0 True) = mount tenSeconds running 0 True
   \<and> \<not> isListening (onerror ''not-allowed'' True
         (step tenSeconds (ToggleVoiceControl, True) (mount tenSeconds running 0 True)))"
  using onerror_effect [where active = True and s = "mount tenSeconds running 0 True"
      and err = "''network''"]
    onerror_effect [where active = True and err = "''network''"
      and s = "step tenSeconds (ToggleVoiceControl, True) (mount tenSeconds running 0 True)"]
  by simp

subsection \<open>Playback progress\<close>





















subsection \<open>Ambient track\<close>

lemma updateProgress_ambient:
  "ambientAudioRef (updateProgress session now s) = ambientAudioRef s"
  "isAmbientOn (updateProgress session now s) = isAmbientOn s"
  by (simp_all add: updateProgress_def Let_def)

lemma playAudio_ambient:
  "ambientAudioRef (playAudio session now s) = ambientAudioRef s"
  "isAmbientOn (playAudio session now s) = isAmbientOn s"
  by (simp_all add: playAudio_def Let_def updateProgress_ambient)

lemma pauseAudio_ambient:
  "ambientAudioRef (pauseAudio now s) = ambientAudioRef s"
  "isAmbientOn (pauseAudio now s) = isAmbientOn s"
  by (simp_all add: pauseAudio_def split: option.splits)

lemma toggleMute_ambient:
  "ambientAudioRef (toggleMute s) = ambientAudioRef s"
  "isAmbientOn (toggleMute s) = isAmbientOn s"
  "isPlaying (toggleMute s) = isPlaying s"
  by (simp_all add: toggleMute_def Let_def)

lemma onresult_ambient:
  "ambientAudioRef (onresult session transcript now s) = ambientAudioRef s"
  by (simp add: onresult_def Let_def playAudio_ambient pauseAudio_ambient toggleMute_ambient)

lemma handle_ambient: "ambientAudioRef (handle session ev s) = ambientAudioRef s"
  by (cases ev)
    (simp_all add: togglePlay_def playAudio_ambient pauseAudio_ambient toggleMute_ambient
      toggleAmbient_def toggleVoiceControl_def onresult_ambient onerror_def frame_def
      updateProgress_ambient)

lemma runEffects_flags:
  "isPlaying (runEffects prev ok s) = isPlaying s"
  "isAmbientOn (runEffects prev ok s) = isAmbientOn s"
  by (simp_all add: runEffects_def syncAmbient_def Let_def split: option.splits)

lemma step_ambientSound: "ambientSound s \<Longrightarrow> ambientSound (step session e s)"
  using handle_ambient [of session "fst e" s]
  by (auto simp: ambientSound_def step_def runEffects_def syncAmbient_def Let_def
      split: option.splits)

lemma step_ambientExact: "ambientExact s \<Longrightarrow> snd e \<Longrightarrow> ambientExact (step session e s)"
  using handle_ambient [of session "fst e" s]
  by (auto simp: ambientExact_def step_def runEffects_def syncAmbient_def Let_def
      split: option.splits)

lemma run_ambientSound: "ambientSound s \<Longrightarrow> ambientSound (run session evs s)"
  by (induction evs arbitrary: s) (simp_all add: step_ambientSound)

lemma run_ambientExact:
  "ambientExact s \<Longrightarrow> \<forall>e \<in> set evs. snd e \<Longrightarrow> ambientExact (run session evs s)"
  by (induction evs arbitrary: s) (simp_all add: step_ambientExact)

lemma mount_ambient:
  "ambientSound (mount session ctxState now ok) \<and> ambientExact (mount session ctxState now ok)"
  by (auto simp: ambientSound_def ambientExact_def mount_def runEffects_def syncAmbient_def
      initialPlayer_def playAudio_ambient Let_def)

lemma step_flags:
  "isPlaying (step session (ToggleAmbient, ok) s) = isPlaying s"
  "isAmbientOn (step session (TogglePlay now, ok) s) = isAmbientOn s"
  by (simp_all add: step_def runEffects_flags toggleAmbient_def togglePlay_def
      playAudio_ambient pauseAudio_ambient)


lemma step_lastPlayOk:
  assumes "ambientAudioRef s = Some (isPlaying s \<and> isAmbientOn s \<and> acc)"
  shows "ambientAudioRef (step session e s)
    = Some (isPlaying (step session e s) \<and> isAmbientOn (step session e s)
        \<and> (if \<not> (isPlaying s \<and> isAmbientOn s)
              \<and> isPlaying (step session e s) \<and> isAmbientOn (step session e s)
            then snd e else acc))"
  using assms handle_ambient [of session "fst e" s]
  by (auto simp: step_def runEffects_def syncAmbient_def Let_def split: option.splits)

lemma run_lastPlayOk:
  "ambientAudioRef s = Some (isPlaying s \<and> isAmbientOn s \<and> acc) \<Longrightarrow>
     ambientAudioRef (run session evs s)
       = Some (isPlaying (run session evs s) \<and> isAmbientOn (run session evs s)
           \<and> lastPlayOk session acc evs s)"
proof (induction evs arbitrary: s acc)
  case Nil
  then show ?case by simp
next
  case (Cons e evs)
  show ?case
    using Cons.IH [OF step_lastPlayOk [OF Cons.prems, of session e]] by simp
qed

lemma step_unchanged:
  assumes "isPlaying (step session e s) = isPlaying s"
    and "isAmbientOn (step session e s) = isAmbientOn s"
  shows "ambientAudioRef (step session e s) = ambientAudioRef s"
proof -
  have "isPlaying (handle session (fst e) s) = isPlaying s"
    and "isAmbientOn (handle session (fst e) s) = isAmbientOn s"
    using assms by (simp_all add: step_def runEffects_flags)
  then show ?thesis
    using handle_ambient [of session "fst e" s]
    by (simp add: step_def runEffects_def Let_def)
qed

text \<open>
  C3, as the claim states it, fails when the ambient element rejects the play request:
  after the ambient toggle on a playing player the player is playing with ambient on and
  the ambient track is silent.
\<close>

theorem ambient_toggle_rejected_counterexample:
  "isPlaying (run tenSeconds [(ToggleAmbient, False)] (mount tenSeconds running 0 True))
   \<and> isAmbientOn (run tenSeconds [(ToggleAmbient, False)] (mount tenSeconds running 0 True))
   \<and> ambientAudioRef (run tenSeconds [(ToggleAmbient, False)] (mount tenSeconds running 0 True))
       = Some False"
  by (simp add: mount_tenSeconds step_def toggleAmbient_def runEffects_def syncAmbient_def
      initialPlayer_def Let_def)

text \<open>
  C3, amended. Let \<open>s\<close> be a state reached from mounting by any series of events, and
  \<open>e\<close> any further event. The ambient track plays in \<open>s\<close> if and only if the
  player is playing, ambient is on and the play request issued the last time the two came
  to hold together was accepted; so it plays only if the player is playing with ambient
  on, and, when no request was rejected, exactly then. A step that leaves both flags as
  they are leaves the ambient track as it is (a rejected request is not repeated: the
  track stays silent until a flag changes); a step that makes the two hold together makes
  the track play if and only if its request is accepted; after a step that leaves one of
  the two false the track is silent. In particular toggling ambient while not playing, or
  play/pause while ambient is off, leaves the ambient track silent.
\<close>

theorem ambient_follows_playing_and_flag:
  fixes session :: MeditationSession and evs :: "(event \<times> bool) list"
    and ctxState :: AudioContextState and now0 now :: real and ok0 ok :: bool
    and e :: "event \<times> bool"
  defines "s \<equiv> run session evs (mount session ctxState now0 ok0)"
  shows "ambientAudioRef s
      = Some (isPlaying s \<and> isAmbientOn s
          \<and> lastPlayOk session False evs (mount session ctxState now0 ok0))
    \<and> (ambientAudioRef s = Some True \<longrightarrow> isPlaying s \<and> isAmbientOn s)
    \<and> ((\<forall>e \<in> set evs. snd e) \<longrightarrow>
         (ambientAudioRef s = Some True) = (isPlaying s \<and> isAmbientOn s))
    \<and> (isPlaying (step session e s) = isPlaying s
         \<and> isAmbientOn (step session e s) = isAmbientOn s \<longrightarrow>
         ambientAudioRef (step session e s) = ambientAudioRef s)
    \<and> (\<not> (isPlaying s \<and> isAmbientOn s)
         \<and> isPlaying (step session e s) \<and> isAmbientOn (step session e s) \<longrightarrow>
         ambientAudioRef (step session e s) = Some (snd e))
    \<and> (\<not> (isPlaying (step session e s) \<and> isAmbientOn (step session e s)) \<longrightarrow>
         ambientAudioRef (step session e s) = Some False)
    \<and> (\<not> isPlaying s \<longrightarrow> ambientAudioRef (step session (ToggleAmbient, ok) s) = Some False)
    \<and> (\<not> isAmbientOn s \<longrightarrow>
         ambientAudioRef (step session (TogglePlay now, ok) s) = Some False)"
proof -
  have m0: "ambientAudioRef (mount session ctxState now0 ok0)
      = Some (isPlaying (mount session ctxState now0 ok0)
          \<and> isAmbientOn (mount session ctxState now0 ok0) \<and> False)"
    by (auto simp: mount_def runEffects_def syncAmbient_def initialPlayer_def
        playAudio_ambient Let_def)
  have exactly: "ambientAudioRef s
      = Some (isPlaying s \<and> isAmbientOn s
          \<and> lastPlayOk session False evs (mount session ctxState now0 ok0))"
    unfolding s_def by (rule run_lastPlayOk [OF m0])
  have sound: "ambientSound s"
    unfolding s_def using mount_ambient by (blast intro: run_ambientSound)
  have exact: "ambientExact s" if "\<forall>e \<in> set evs. snd e"
    unfolding s_def using mount_ambient that by (blast intro: run_ambientExact)
  have silent: "ambientAudioRef u = Some False"
    if "ambientSound u" "\<not> (isPlaying u \<and> isAmbientOn u)" for u
    using that by (cases "ambientAudioRef u") (auto simp: ambientSound_def)
  have a: "ambientAudioRef s = Some True \<longrightarrow> isPlaying s \<and> isAmbientOn s"
    using sound by (simp add: ambientSound_def)
  have b: "(\<forall>e \<in> set evs. snd e) \<longrightarrow>
      (ambientAudioRef s = Some True) = (isPlaying s \<and> isAmbientOn s)"
    using exact by (auto simp: ambientExact_def)
  have keep: "isPlaying (step session e s) = isPlaying s
      \<and> isAmbientOn (step session e s) = isAmbientOn s \<longrightarrow>
      ambientAudioRef (step session e s) = ambientAudioRef s"
    using step_unchanged [of session e s] by blast
  have start: "\<not> (isPlaying s \<and> isAmbientOn s)
      \<and> isPlaying (step session e s) \<and> isAmbientOn (step session e s) \<longrightarrow>
      ambientAudioRef (step session e s) = Some (snd e)"
    using step_lastPlayOk [OF exactly, of session e] by auto
  have stop: "\<not> (isPlaying (step session e s) \<and> isAmbientOn (step session e s)) \<longrightarrow>
      ambientAudioRef (step session e s) = Some False"
    using silent [OF step_ambientSound [OF sound, of session e]] by blast
  have c: "\<not> isPlaying s \<longrightarrow> ambientAudioRef (step session (ToggleAmbient, ok) s) = Some False"
    using silent [OF step_ambientSound [OF sound, of session "(ToggleAmbient, ok)"]]
    by (simp add: step_flags)
  have d: "\<not> isAmbientOn s \<longrightarrow>
      ambientAudioRef (step session (TogglePlay now, ok) s) = Some False"
    using silent [OF step_ambientSound [OF sound, of session "(TogglePlay now, ok)"]]
    by (simp add: step_flags)
  show ?thesis
    using exactly a b keep start stop c d by blast
qed

lemma ambient_tenSeconds:
  "ambientAudioRef (run tenSeconds [(ToggleAmbient, True)] (mount tenSeconds running 0 True))
     = Some True
   \<and> isPlaying (run tenSeconds [(ToggleAmbient, True)] (mount tenSeconds running 0 True))
   \<and> isAmbientOn (run tenSeconds [(ToggleAmbient, True)] (mount tenSeconds running 0 True))
   \<and> lastPlayOk tenSeconds False [(ToggleAmbient, True)] (mount tenSeconds running 0 True)
   \<and> \<not> isPlaying (run tenSeconds [(TogglePlay 1, True)] (mount tenSeconds running 0 True))
   \<and> \<not> isAmbientOn (run tenSeconds [(TogglePlay 1, True)] (mount tenSeconds running 0 True))"
  by (simp add: mount_tenSeconds step_def toggleAmbient_def togglePlay_def pauseAudio_def
      runEffects_def syncAmbient_def initialPlayer_def Let_def)

lemma ambient_rejected_tenSeconds:
  "isPlaying (run tenSeconds [(ToggleAmbient, False)] (mount tenSeconds running 0 True))
   \<and> isAmbientOn (run tenSeconds [(ToggleAmbient, False)] (mount tenSeconds running 0 True))
   \<and> isPlaying (step tenSeconds (ToggleMute, True)
        (run tenSeconds [(ToggleAmbient, False)] (mount tenSeconds running 0 True)))
   \<and> isAmbientOn (step tenSeconds (ToggleMute, True)
        (run tenSeconds [(ToggleAmbient, False)] (mount tenSeconds running 0 True)))
   \<and> ambientAudioRef (step tenSeconds (ToggleMute, True)
        (run tenSeconds [(ToggleAmbient, False)] (mount tenSeconds running 0 True))) = Some False
   \<and> \<not> isAmbientOn (run tenSeconds [(ToggleAmbient, False), (ToggleAmbient, True)]
        (mount tenSeconds running 0 True))
   \<and> isPlaying (step tenSeconds (ToggleAmbient, True)
        (run tenSeconds [(ToggleAmbient, False), (ToggleAmbient, True)]
          (mount tenSeconds running 0 True)))
   \<and> isAmbientOn (step tenSeconds (ToggleAmbient, True)
        (run tenSeconds [(ToggleAmbient, False), (ToggleAmbient, True)]
          (mount tenSeconds running 0 True)))"
  by (simp add: mount_tenSeconds step_def toggleAmbient_def toggleMute_def
      runEffects_def syncAmbient_def initialPlayer_def Let_def)

theorem ambient_follows_playing_and_flag_witness:
  "snd (ToggleAmbient, True)
   \<and> ambientAudioRef (run tenSeconds [(ToggleAmbient, True)] (mount tenSeconds running 0 True))
       = Some True
   \<and> isPlaying (run tenSeconds [(ToggleAmbient, True)] (mount tenSeconds running 0 True))
   \<and> isAmbientOn (run tenSeconds [(ToggleAmbient, True)] (mount tenSeconds running 0 True))
   \<and> isPlaying (run tenSeconds [(ToggleAmbient, False)] (mount tenSeconds running 0 True))
   \<and> isAmbientOn (run tenSeconds [(ToggleAmbient, False)] (mount tenSeconds running 0 True))
   \<and> ambientAudioRef (run tenSeconds [(ToggleAmbient, False)] (mount tenSeconds running 0 True))
       = Some False
   \<and> ambientAudioRef (step tenSeconds (ToggleMute, True)
        (run tenSeconds [(ToggleAmbient, False)] (mount tenSeconds running 0 True))) = Some False
   \<and> \<not> isAmbientOn (run tenSeconds [(ToggleAmbient, False), (ToggleAmbient, True)]
        (mount tenSeconds running 0 True))
   \<and> ambientAudioRef (step tenSeconds (ToggleAmbient, True)
        (run tenSeconds [(ToggleAmbient, False), (ToggleAmbient, True)]
          (mount tenSeconds running 0 True))) = Some True
   \<and> \<not> isPlaying (run tenSeconds [(TogglePlay 1, True)] (mount tenSeconds running 0 True))
   \<and> \<not> isAmbientOn (run tenSeconds [(TogglePlay 1, True)] (mount tenSeconds running 0 True))
   \<and> ambientAudioRef (step tenSeconds (ToggleAmbient, True)
        (run tenSeconds [(TogglePlay 1, True)] (mount tenSeconds running 0 True))) = Some False
   \<and> ambientAudioRef (step tenSeconds (TogglePlay 2, True)
        (run tenSeconds [(TogglePlay 1, True)] (mount tenSeconds running 0 True))) = Some False"
proof -
  have h: "\<forall>e \<in> set [(ToggleAmbient, True)]. snd e"
    and h': "snd (ToggleAmbient, True)"
    by simp_all
  note accepted = ambient_follows_playing_and_flag [where session = tenSeconds
        and evs = "[(ToggleAmbient, True)]" and ctxState = running and ?now0.0 = 0 and ok0 = True]
  note rejected = ambient_follows_playing_and_flag [where session = tenSeconds
        and evs = "[(ToggleAmbient, False)]" and ctxState = running and ?now0.0 = 0
        and ok0 = True and e = "(ToggleMute, True)"]
  note again = ambient_follows_playing_and_flag [where session = tenSeconds
        and evs = "[(ToggleAmbient, False), (ToggleAmbient, True)]" and ctxState = running
        and ?now0.0 = 0 and ok0 = True and e = "(ToggleAmbient, True)"]
  note paused = ambient_follows_playing_and_flag [where session = tenSeconds
        and evs = "[(TogglePlay 1, True)]" and ctxState = running and ?now0.0 = 0 and ok0 = True
        and ok = True and now = 2]
  have silent: "ambientAudioRef (run tenSeconds [(ToggleAmbient, False)]
      (mount tenSeconds running 0 True)) = Some False"
    by (simp add: mount_tenSeconds step_def toggleAmbient_def runEffects_def syncAmbient_def
        initialPlayer_def Let_def)
  have kept: "ambientAudioRef (step tenSeconds (ToggleMute, True)
        (run tenSeconds [(ToggleAmbient, False)] (mount tenSeconds running 0 True))) = Some False"
    using rejected ambient_rejected_tenSeconds silent by metis
  have restarted: "ambientAudioRef (step tenSeconds (ToggleAmbient, True)
        (run tenSeconds [(ToggleAmbient, False), (ToggleAmbient, True)]
          (mount tenSeconds running 0 True))) = Some True"
    using again ambient_rejected_tenSeconds h' by metis
  show ?thesis
    using h h' ambient_tenSeconds ambient_rejected_tenSeconds silent kept restarted
      accepted paused
    by blast
qed

subsection \<open>Chat transcript\<close>

lemma send_messages:
  assumes "trim (typed x) \<noteq> []" "\<not> isLoading c"
  shows "messages (send x c) = messages c @ (if answered x then exchange x else take 1 (exchange x))"
    and "\<not> isLoading (send x c)"
  using assms
  by (auto simp: send_def handleSend_def Let_def answered_def exchange_def replyText_def
      split: ChatOutcome.splits option.splits)

lemma sends_messages:
  assumes "\<forall>x \<in> set xs. trim (typed x) \<noteq> []" "\<not> isLoading c"
  shows "messages (sends xs c) =
           messages c @ concat (map (\<lambda>x. if answered x then exchange x else take 1 (exchange x)) xs)"
  using assms
proof (induction xs arbitrary: c)
  case Nil
  then show ?case by simp
next
  case (Cons x xs)
  have nb: "trim (typed x) \<noteq> []" and rest: "\<forall>y \<in> set xs. trim (typed y) \<noteq> []"
    using Cons.prems(1) by simp_all
  note sm = send_messages [OF nb Cons.prems(2)]
  show ?case
    using Cons.IH [OF rest sm(2)] by (simp add: sm(1))
qed

text \<open>
  When every send of a series is a non-blank text that is answered, the transcript is the
  greeting followed by the user/response pairs in send order, \<open>1 + 2N\<close> entries in
  all, a failed send contributing the connectivity-failure message.
\<close>

lemma transcript_when_answered:
  assumes "\<forall>x \<in> set xs. trim (typed x) \<noteq> [] \<and> answered x"
  shows "length (messages (sends xs (initialChat t0))) = 1 + 2 * length xs
    \<and> messages (sends xs (initialChat t0)) = messages (initialChat t0) @ concat (map exchange xs)"
proof -
  have idle: "\<not> isLoading (initialChat t0)"
    by (simp add: initialChat_def)
  have nonblank: "\<forall>x \<in> set xs. trim (typed x) \<noteq> []"
    using assms by blast
  note msgs = sends_messages [OF nonblank idle]
  have greeting: "length (messages (initialChat t0)) = 1"
    by (simp add: initialChat_def)
  have all: "concat (map (\<lambda>x. if answered x then exchange x else take 1 (exchange x)) xs)
               = concat (map exchange xs)"
    using assms by (induction xs) simp_all
  have len: "length (concat (map exchange ys)) = 2 * length ys" for ys
    by (induction ys) (simp_all add: exchange_def)
  show ?thesis
    using msgs greeting all len [of xs] by simp
qed

text \<open>
  C4. A send whose service call resolves without text (absent or empty) adds the user
  message and no response: after one such send the transcript holds the greeting and the
  user message, two entries where the claim requires three, and the panel is idle again.
\<close>

theorem textless_response_adds_no_reply:
  "messages (sends [\<lparr>typed = ''hi'', outcome = Resolved None, sentAt = 1, repliedAt = 2\<rparr>]
      (initialChat 0))
     = messages (initialChat 0) @ [\<lparr>role = user, text_msg = ''hi'', timestamp = 1\<rparr>]
   \<and> length (messages (sends
        [\<lparr>typed = ''hi'', outcome = Resolved None, sentAt = 1, repliedAt = 2\<rparr>] (initialChat 0)))
      = 2
   \<and> \<not> isLoading (sends
        [\<lparr>typed = ''hi'', outcome = Resolved None, sentAt = 1, repliedAt = 2\<rparr>] (initialChat 0))
   \<and> messages (sends [\<lparr>typed = ''hi'', outcome = Resolved (Some []), sentAt = 1, repliedAt = 2\<rparr>]
      (initialChat 0))
     = messages (initialChat 0) @ [\<lparr>role = user, text_msg = ''hi'', timestamp = 1\<rparr>]"
  by (simp add: send_def handleSend_def initialChat_def trim_def isWhiteSpace_def Let_def)

subsection \<open>Generation pipeline\<close>

lemma trim_ocean: "trim ''ocean at sunset'' \<noteq> []"
  by (simp add: trim_def isWhiteSpace_def)

text \<open>
  C7. When plan generation fails, the only service call made is the plan call (no image
  call and no audio call), the status is the failed status with the generic error
  message, and no session is handed to the caller.
\<close>

theorem plan_failure_stops_pipeline:
  assumes "trim prompt \<noteq> []"
    and "generateMeditationPlan services prompt = Inl e"
  shows "calls (handleGenerate services dateNow prompt status0) = [PlanCall prompt]
    \<and> (\<forall>p. ImageCall p \<notin> set (calls (handleGenerate services dateNow prompt status0))
           \<and> AudioCall p \<notin> set (calls (handleGenerate services dateNow prompt status0)))
    \<and> status (handleGenerate services dateNow prompt status0) = failedStatus
    \<and> error (status (handleGenerate services dateNow prompt status0))
        = Some ''Something went wrong creating your session. Please try again.''
    \<and> created (handleGenerate services dateNow prompt status0) = None"
  using assms by (simp add: handleGenerate_def failedStatus_def)

theorem plan_failure_stops_pipeline_witness:
  "trim ''ocean at sunset'' \<noteq> []
   \<and> generateMeditationPlan
        (fixedServices (Inl (ServiceError ''No plan generated'')) (Inr ''data:image'')
           (Inr \<lparr>length_buf = 240000, sampleRate = 24000\<rparr>)) ''ocean at sunset''
       = Inl (ServiceError ''No plan generated'')
   \<and> calls (handleGenerate
        (fixedServices (Inl (ServiceError ''No plan generated'')) (Inr ''data:image'')
           (Inr \<lparr>length_buf = 240000, sampleRate = 24000\<rparr>)) 1700000000000 ''ocean at sunset''
        initialStatus) = [PlanCall ''ocean at sunset'']
   \<and> status (handleGenerate
        (fixedServices (Inl (ServiceError ''No plan generated'')) (Inr ''data:image'')
           (Inr \<lparr>length_buf = 240000, sampleRate = 24000\<rparr>)) 1700000000000 ''ocean at sunset''
        initialStatus) = failedStatus"
proof -
  have h: "generateMeditationPlan
        (fixedServices (Inl (ServiceError ''No plan generated'')) (Inr ''data:image'')
           (Inr \<lparr>length_buf = 240000, sampleRate = 24000\<rparr>)) ''ocean at sunset''
       = Inl (ServiceError ''No plan generated'')"
    by (simp add: fixedServices_def)
  show ?thesis
    using trim_ocean h
      plan_failure_stops_pipeline [OF trim_ocean h, of 1700000000000 initialStatus]
    by simp
qed

text \<open>
  C5. When audio generation fails, whatever the image service returns, the pipeline ends
  in the failed status with the generic error message and hands no session to the caller.
\<close>

theorem audio_failure_fails_pipeline:
  assumes "trim prompt \<noteq> []"
    and "generateMeditationPlan services prompt = Inr plan"
    and "generateMeditationAudio services (script plan) = Inl e"
  shows "status (handleGenerate services dateNow prompt status0) = failedStatus
    \<and> error (status (handleGenerate services dateNow prompt status0))
        = Some ''Something went wrong creating your session. Please try again.''
    \<and> created (handleGenerate services dateNow prompt status0) = None"
  using assms by (simp add: handleGenerate_def failedStatus_def Let_def)

theorem audio_failure_fails_pipeline_witness:
  "trim ''ocean at sunset'' \<noteq> []
   \<and> status (handleGenerate
        (fixedServices (Inr oceanPlan) (Inr ''data:image'')
           (Inl (ServiceError ''No audio data received''))) 1700000000000 ''ocean at sunset''
        initialStatus) = failedStatus
   \<and> status (handleGenerate
        (fixedServices (Inr oceanPlan) (Inl (ServiceError ''Failed to generate image''))
           (Inl (ServiceError ''No audio data received''))) 1700000000000 ''ocean at sunset''
        initialStatus) = failedStatus
   \<and> created (handleGenerate
        (fixedServices (Inr oceanPlan) (Inr ''data:image'')
           (Inl (ServiceError ''No audio data received''))) 1700000000000 ''ocean at sunset''
        initialStatus) = None"
proof -
  have p: "generateMeditationPlan (fixedServices (Inr oceanPlan) i a) ''ocean at sunset''
             = Inr oceanPlan" for i a
    by (simp add: fixedServices_def)
  have a: "generateMeditationAudio
             (fixedServices (Inr oceanPlan) i (Inl (ServiceError ''No audio data received'')))
             (script oceanPlan) = Inl (ServiceError ''No audio data received'')" for i
    by (simp add: fixedServices_def)
  show ?thesis
    using trim_ocean
      audio_failure_fails_pipeline [OF trim_ocean p a, of "Inr ''data:image''" 1700000000000
        initialStatus]
      audio_failure_fails_pipeline [OF trim_ocean p a,
        of "Inl (ServiceError ''Failed to generate image'')" 1700000000000 initialStatus]
    by simp
qed

text \<open>
  C6. When image generation fails and audio generation succeeds, the pipeline ends with no
  error and nothing in flight, and hands the caller a session built from the plan, with
  the placeholder image reference as its image and the generated audio buffer.
\<close>

theorem image_failure_falls_back:
  assumes "trim prompt \<noteq> []"
    and "generateMeditationPlan services prompt = Inr plan"
    and "generateMeditationImage services (imagePrompt plan) = Inl e"
    and "generateMeditationAudio services (script plan) = Inr buf"
  shows "status (handleGenerate services dateNow prompt status0) = initialStatus
    \<and> error (status (handleGenerate services dateNow prompt status0)) = None
    \<and> created (handleGenerate services dateNow prompt status0)
        = Some \<lparr>title = title plan, description = description plan, script = script plan,
                 imagePrompt = imagePrompt plan, id_session = toString dateNow,
                 imageUrl = Some ''https://picsum.photos/1920/1080'', audioBuffer = Some buf\<rparr>"
  using assms by (simp add: handleGenerate_def initialStatus_def fallbackImage_def Let_def)

theorem image_failure_falls_back_witness:
  "trim ''ocean at sunset'' \<noteq> []
   \<and> map_option imageUrl (created (handleGenerate
        (fixedServices (Inr oceanPlan) (Inl (ServiceError ''Failed to generate image''))
           (Inr \<lparr>length_buf = 240000, sampleRate = 24000\<rparr>)) 1700000000000 ''ocean at sunset''
        initialStatus)) = Some (Some ''https://picsum.photos/1920/1080'')
   \<and> map_option audioBuffer (created (handleGenerate
        (fixedServices (Inr oceanPlan) (Inl (ServiceError ''Failed to generate image''))
           (Inr \<lparr>length_buf = 240000, sampleRate = 24000\<rparr>)) 1700000000000 ''ocean at sunset''
        initialStatus)) = Some (Some \<lparr>length_buf = 240000, sampleRate = 24000\<rparr>)
   \<and> error (status (handleGenerate
        (fixedServices (Inr oceanPlan) (Inl (ServiceError ''Failed to generate image''))
           (Inr \<lparr>length_buf = 240000, sampleRate = 24000\<rparr>)) 1700000000000 ''ocean at sunset''
        initialStatus)) = None"
proof -
  have p: "generateMeditationPlan
             (fixedServices (Inr oceanPlan) (Inl (ServiceError ''Failed to generate image''))
                (Inr \<lparr>length_buf = 240000, sampleRate = 24000\<rparr>)) ''ocean at sunset''
             = Inr oceanPlan"
    by (simp add: fixedServices_def)
  have i: "generateMeditationImage
             (fixedServices (Inr oceanPlan) (Inl (ServiceError ''Failed to generate image''))
                (Inr \<lparr>length_buf = 240000, sampleRate = 24000\<rparr>)) (imagePrompt oceanPlan)
             = Inl (ServiceError ''Failed to generate image'')"
    by (simp add: fixedServices_def)
  have a: "generateMeditationAudio
             (fixedServices (Inr oceanPlan) (Inl (ServiceError ''Failed to generate image''))
                (Inr \<lparr>length_buf = 240000, sampleRate = 24000\<rparr>)) (script oceanPlan)
             = Inr \<lparr>length_buf = 240000, sampleRate = 24000\<rparr>"
    by (simp add: fixedServices_def)
  show ?thesis
    using trim_ocean
      image_failure_falls_back [OF trim_ocean p i a, of 1700000000000 initialStatus]
    by (simp add: initialStatus_def)
qed

subsection \<open>Application shell\<close>

text \<open>
  C9. Closing the player switches the application mode back to the Generate view
  (\<open>CREATE\<close>) and leaves the active session binding as it was; in particular a session
  bound by \<open>handleSessionCreated\<close> is still bound after the close.
\<close>

theorem closePlayer_keeps_session:
  "currentMode (closePlayer a) = CREATE
   \<and> activeSession (closePlayer a) = activeSession a
   \<and> activeSession (closePlayer (handleSessionCreated session a)) = Some session"
  by (simp add: closePlayer_def handleSessionCreated_def)

end
